theory Spec2Isabelle
  imports Complex_Main "HOL-Library.Word"
begin

section \<open>Platform model: errors and base64\<close>

text \<open>
  JavaScript strings are modelled as \<open>string\<close>, one \<open>char\<close> per UTF-16 code unit, restricted
  to the code units 0..255 that \<open>char\<close> covers. A \<open>Uint8Array\<close> is a list of \<open>8 word\<close>.
  Every exception the source can raise is a value of \<open>js_error\<close>; a fallible function returns
  \<open>js_error + 'a\<close> with \<open>Inl\<close> for the exception.
\<close>

datatype js_error =
    InvalidCharacterError
  | RangeError
  | NotSupportedError
  | TypeError
  | SdkError string

text \<open>
  \<open>btoa\<close> and \<open>atob\<close> are browser builtins (forgiving-base64 encode and decode of the WHATWG
  Infra standard, over the alphabet of RFC 4648). \<open>btoa\<close> cannot fail on the modelled strings,
  whose code units are all below 256.
\<close>

definition b64chars :: string where
  "b64chars = ''ABCDEFGHIJKLMNOPQRSTUVWXYZabcdefghijklmnopqrstuvwxyz0123456789+/''"

fun bytes_to_sextets :: "nat list \<Rightarrow> nat list" where
  "bytes_to_sextets (a # b # c # rest) =
     [a div 4, (a mod 4) * 16 + b div 16, (b mod 16) * 4 + c div 64, c mod 64]
       @ bytes_to_sextets rest"
| "bytes_to_sextets [a, b] = [a div 4, (a mod 4) * 16 + b div 16, (b mod 16) * 4]"
| "bytes_to_sextets [a] = [a div 4, (a mod 4) * 16]"
| "bytes_to_sextets [] = []"

definition btoa :: "string \<Rightarrow> string" where
  "btoa s =
     (let bs = map of_char s
      in map (\<lambda>i. b64chars ! i) (bytes_to_sextets bs)
           @ replicate ((3 - length bs mod 3) mod 3) (CHR ''=''))"

definition is_ascii_whitespace :: "char \<Rightarrow> bool" where
  "is_ascii_whitespace c = (of_char c \<in> {9, 10, 12, 13, 32 :: nat})"

definition b64_index :: "char \<Rightarrow> nat option" where
  "b64_index c = map_of (zip b64chars [0 ..< 64]) c"

definition strip_padding :: "string \<Rightarrow> string" where
  "strip_padding d =
     (if length d mod 4 = 0 then
        (if 2 \<le> length d \<and> last d = CHR ''='' \<and> last (butlast d) = CHR ''=''
         then butlast (butlast d)
         else if d \<noteq> [] \<and> last d = CHR ''='' then butlast d
         else d)
      else d)"

fun sextets_to_bytes :: "nat list \<Rightarrow> nat list" where
  "sextets_to_bytes (a # b # c # d # rest) =
     [a * 4 + b div 16, (b mod 16) * 16 + c div 4, (c mod 4) * 64 + d]
       @ sextets_to_bytes rest"
| "sextets_to_bytes [a, b, c] = [a * 4 + b div 16, (b mod 16) * 16 + c div 4]"
| "sextets_to_bytes [a, b] = [a * 4 + b div 16]"
| "sextets_to_bytes [a] = []"
| "sextets_to_bytes [] = []"

definition atob :: "string \<Rightarrow> js_error + string" where
  "atob s =
     (let d = strip_padding (filter (\<lambda>c. \<not> is_ascii_whitespace c) s)
      in if length d mod 4 = 1 then Inl InvalidCharacterError
         else (case those (map b64_index d) of
                 None \<Rightarrow> Inl InvalidCharacterError
               | Some xs \<Rightarrow> Inr (map char_of (sextets_to_bytes xs))))"

section \<open>App.tsx: audio helpers\<close>

text \<open>
  \<^verbatim>\<open>function encode(bytes: Uint8Array)\<close>: each byte becomes the code unit of the same value
  (\<open>String.fromCharCode\<close>), the binary string goes through \<open>btoa\<close>.
\<close>

definition encode :: "8 word list \<Rightarrow> string" where
  "encode bytes = btoa (map (\<lambda>b. char_of (unat b)) bytes)"

text \<open>
  \<^verbatim>\<open>function decode(base64: string)\<close>: \<open>atob\<close> may throw; each code unit of the binary
  string is stored into a \<open>Uint8Array\<close> (the store keeps the low 8 bits).
\<close>

definition decode :: "string \<Rightarrow> js_error + 8 word list" where
  "decode base64 =
     (case atob base64 of
        Inl e \<Rightarrow> Inl e
      | Inr binaryString \<Rightarrow> Inr (map (\<lambda>c. of_nat (of_char c)) binaryString))"

section \<open>types.ts\<close>

datatype Role = USER | MODEL | SYSTEM

datatype Language = EN | PT | ES | FR | DE | IT

text \<open>
  \<open>Attachment.data\<close> is declared \<open>string\<close>; at run time it holds whatever
  \<^verbatim>\<open>split(',')[1]\<close> returned, which is \<open>undefined\<close> (\<open>None\<close>) when there is no such piece.
\<close>

record Attachment =
  mimeType :: string
  data :: "string option"
  url :: "string option"

record GeneratedImage =
  img_data :: string
  img_mimeType :: string

record Message =
  msg_id :: string
  role :: Role
  content :: string
  timestamp :: int
  attachments :: "Attachment list option"
  generatedImage :: "GeneratedImage option"
  isStreaming :: "bool option"

record ChatSession =
  sess_id :: string
  title :: string
  messages :: "Message list"
  updatedAt :: int
  isKidMode :: "bool option"

section \<open>translations.ts (not among the sources at hand)\<close>

text \<open>
  The table \<^verbatim>\<open>translations\<close> is taken as a parameter of type \<open>Language \<Rightarrow> Translation\<close>:
  only the five entries the code reads are modelled.
\<close>

record Translation =
  newConversation :: string
  welcome_msg :: string
  kidWelcome :: string
  systemInstruction :: string
  kidInstruction :: string

section \<open>services/geminiService.ts\<close>

text \<open>
  The SDK is an external collaborator. A request is what the code passes to it; the response
  is what it hands back: for \<open>generateContent\<close> an exception or
  \<^verbatim>\<open>result.candidates?.[0]?.content?.parts\<close> (\<open>None\<close> when undefined); for
  \<open>generateContentStream\<close> a stream of chunks, each with its optional \<open>text\<close>, that ends or
  throws (a stream that throws at once is also how the call itself throwing is written).
\<close>

datatype RequestPart = TextPart string | InlineDataPart string "string option"

record RequestContent =
  rc_role :: string
  rc_parts :: "RequestPart list"

record GenerateConfig =
  cfg_systemInstruction :: string
  cfg_temperature :: rat
  cfg_thinkingBudget :: "int option"

record GenerateContentParameters =
  model :: string
  contents :: "RequestContent list"
  config :: GenerateConfig

datatype SdkCall =
    CallGenerateContent GenerateContentParameters
  | CallGenerateContentStream GenerateContentParameters

record Blob =
  blob_data :: string
  blob_mimeType :: string

record Part =
  part_text :: "string option"
  inlineData :: "Blob option"

datatype SdkStream = StreamEnd | StreamThrow js_error | StreamChunk "string option" SdkStream

record Sdk =
  generateContent :: "GenerateContentParameters \<Rightarrow> js_error + Part list option"
  generateContentStream :: "GenerateContentParameters \<Rightarrow> SdkStream"

text \<open>\<^verbatim>\<open>messages.some(m => m.attachments && m.attachments.length > 0)\<close>\<close>

definition hasImages :: "Message list \<Rightarrow> bool" where
  "hasImages msgs =
     list_ex (\<lambda>m. case attachments m of None \<Rightarrow> False | Some as \<Rightarrow> 0 < length as) msgs"

definition modelName :: "Message list \<Rightarrow> string" where
  "modelName msgs =
     (if hasImages msgs then ''gemini-2.5-flash-image'' else ''gemini-3-flash-preview'')"

definition message_parts :: "Message \<Rightarrow> RequestPart list" where
  "message_parts m =
     TextPart (content m) #
       (case attachments m of
          None \<Rightarrow> []
        | Some as \<Rightarrow> map (\<lambda>attachment. InlineDataPart (mimeType attachment) (data attachment)) as)"

definition request_contents :: "Message list \<Rightarrow> RequestContent list" where
  "request_contents msgs =
     map (\<lambda>m. \<lparr>rc_role = (if role m = USER then ''user'' else ''model''),
                rc_parts = message_parts m\<rparr>)
       (filter (\<lambda>m. role m \<noteq> SYSTEM) msgs)"

definition request_systemInstruction ::
    "(Language \<Rightarrow> Translation) \<Rightarrow> Message list \<Rightarrow> Language \<Rightarrow> bool \<Rightarrow> string" where
  "request_systemInstruction translations msgs lang kid =
     (if kid then kidInstruction (translations lang) else systemInstruction (translations lang))
       @ (if hasImages msgs
          then '' You can also generate or edit images if requested. If you generate an image, it will be sent as part of your response.''
          else [])"

text \<open>The loop over \<^verbatim>\<open>candidate.content.parts\<close> of the non-streaming path.\<close>

fun parts_loop ::
    "(string \<Rightarrow> 's \<Rightarrow> 's) \<Rightarrow> (string \<Rightarrow> string \<Rightarrow> 's \<Rightarrow> 's) option \<Rightarrow> Part list \<Rightarrow> 's \<Rightarrow> 's" where
  "parts_loop onChunk onImageGenerated [] st = st"
| "parts_loop onChunk onImageGenerated (p # ps) st =
     (let st1 = (case part_text p of
                   Some t \<Rightarrow> if t \<noteq> [] then onChunk t st else st
                 | None \<Rightarrow> st);
          st2 = (case inlineData p of
                   Some b \<Rightarrow> (case onImageGenerated of
                                Some f \<Rightarrow> f (blob_data b) (blob_mimeType b) st1
                              | None \<Rightarrow> st1)
                 | None \<Rightarrow> st1)
      in parts_loop onChunk onImageGenerated ps st2)"

text \<open>The \<^verbatim>\<open>for await\<close> loop of the streaming path, with its accumulator \<open>fullText\<close>.\<close>

fun stream_loop ::
    "(string \<Rightarrow> 's \<Rightarrow> 's) \<Rightarrow> SdkStream \<Rightarrow> string \<Rightarrow> 's \<Rightarrow> (js_error + string) \<times> 's" where
  "stream_loop onChunk StreamEnd fullText st = (Inr fullText, st)"
| "stream_loop onChunk (StreamThrow e) fullText st = (Inl e, st)"
| "stream_loop onChunk (StreamChunk t rest) fullText st =
     (case t of
        Some txt \<Rightarrow>
          if txt \<noteq> [] then stream_loop onChunk rest (fullText @ txt) (onChunk txt st)
          else stream_loop onChunk rest fullText st
      | None \<Rightarrow> stream_loop onChunk rest fullText st)"

text \<open>
  The two requests: \<open>model\<close>, \<open>contents\<close> and \<open>config\<close> as the source writes them (only the
  streaming request sets a thinking budget).
\<close>

definition image_request ::
    "(Language \<Rightarrow> Translation) \<Rightarrow> Message list \<Rightarrow> Language \<Rightarrow> bool \<Rightarrow> GenerateContentParameters" where
  "image_request translations msgs lang kid =
     \<lparr>model = modelName msgs, contents = request_contents msgs,
      config = \<lparr>cfg_systemInstruction = request_systemInstruction translations msgs lang kid,
                cfg_temperature = 9 / 10, cfg_thinkingBudget = None\<rparr>\<rparr>"

definition stream_request ::
    "(Language \<Rightarrow> Translation) \<Rightarrow> Message list \<Rightarrow> Language \<Rightarrow> bool \<Rightarrow> GenerateContentParameters" where
  "stream_request translations msgs lang kid =
     \<lparr>model = modelName msgs, contents = request_contents msgs,
      config = \<lparr>cfg_systemInstruction = request_systemInstruction translations msgs lang kid,
                cfg_temperature = 9 / 10, cfg_thinkingBudget = Some 0\<rparr>\<rparr>"

text \<open>
  \<^verbatim>\<open>generateStreamingResponse\<close>. The callbacks act on the caller's state \<open>'s\<close>. The result is
  the SDK call that was made, the value returned (\<open>Inr\<close>) or the exception rethrown by the
  \<^verbatim>\<open>catch\<close> block (\<open>Inl\<close>), and the caller's state after the callbacks.
\<close>

definition generateStreamingResponse ::
    "Sdk \<Rightarrow> (Language \<Rightarrow> Translation) \<Rightarrow> Message list \<Rightarrow> Language \<Rightarrow> bool
      \<Rightarrow> (string \<Rightarrow> 's \<Rightarrow> 's) \<Rightarrow> (string \<Rightarrow> string \<Rightarrow> 's \<Rightarrow> 's) option \<Rightarrow> 's
      \<Rightarrow> SdkCall \<times> (js_error + string) \<times> 's" where
  "generateStreamingResponse sdk translations msgs lang kid onChunk onImageGenerated st =
     (if hasImages msgs then
        (let req = image_request translations msgs lang kid
         in (CallGenerateContent req,
             (case generateContent sdk req of
                Inl e \<Rightarrow> (Inl e, st)
              | Inr None \<Rightarrow> (Inr [], st)
              | Inr (Some ps) \<Rightarrow> (Inr [], parts_loop onChunk onImageGenerated ps st))))
      else
        (let req = stream_request translations msgs lang kid
         in (CallGenerateContentStream req,
             stream_loop onChunk (generateContentStream sdk req) [] st)))"

section \<open>App.tsx: the session store\<close>

text \<open>
  The component state the properties are about: the React state variables \<open>sessions\<close>,
  \<open>currentSessionId\<close>, \<open>isLoading\<close> and \<open>language\<close>, the browser's \<open>localStorage\<close>, and the
  refs of the live session (\<open>nextStartTimeRef\<close>, \<open>audioSourcesRef\<close>, \<open>transcriptionRef\<close>).
  \<open>ttsRequests\<close> logs the calls of \<open>playResponseAudio\<close>, \<open>startedSources\<close> the calls of
  \<open>source.start\<close> and \<open>stoppedSources\<close> the sources on which \<open>stop()\<close> was called, each in
  order. Times of the audio context are rational numbers of seconds, added exactly.
  Every state update is applied when it is enqueued, one handler at a time.
\<close>

record AudioSource =
  src_start :: rat
  src_duration :: rat

record AppState =
  sessions :: "ChatSession list"
  currentSessionId :: "string option"
  isLoading :: bool
  language :: Language
  localStorage :: "string \<rightharpoonup> string"
  ttsRequests :: "string list"
  nextStartTime :: rat
  audioSources :: "AudioSource list"
  startedSources :: "AudioSource list"
  stoppedSources :: "AudioSource list"
  transcription_input :: string
  transcription_output :: string

text \<open>
  The effect \<^verbatim>\<open>useEffect(() => { if (sessions.length > 0) localStorage.setItem(...) }, [sessions])\<close>
  runs after every commit that changed \<open>sessions\<close>. \<open>JSON.stringify\<close> is the parameter
  \<open>stringify\<close>.
\<close>

definition persistSessions :: "(ChatSession list \<Rightarrow> string) \<Rightarrow> AppState \<Rightarrow> AppState" where
  "persistSessions stringify st =
     (if 0 < length (sessions st)
      then st\<lparr>localStorage := (localStorage st)(''gemini_sessions'' \<mapsto> stringify (sessions st))\<rparr>
      else st)"

definition setSessions ::
    "(ChatSession list \<Rightarrow> string) \<Rightarrow> (ChatSession list \<Rightarrow> ChatSession list) \<Rightarrow> AppState \<Rightarrow> AppState" where
  "setSessions stringify f st = persistSessions stringify (st\<lparr>sessions := f (sessions st)\<rparr>)"

definition currentSession :: "AppState \<Rightarrow> ChatSession option" where
  "currentSession st =
     (case currentSessionId st of
        None \<Rightarrow> None
      | Some cur \<Rightarrow> find (\<lambda>s. sess_id s = cur) (sessions st))"

definition isKidModeNow :: "AppState \<Rightarrow> bool" where
  "isKidModeNow st = (case currentSession st of None \<Rightarrow> False | Some s \<Rightarrow> isKidMode s = Some True)"

fun language_code :: "Language \<Rightarrow> string" where
  "language_code EN = ''en''"
| "language_code PT = ''pt''"
| "language_code ES = ''es''"
| "language_code FR = ''fr''"
| "language_code DE = ''de''"
| "language_code IT = ''it''"

text \<open>The effect on \<open>[language, currentSessionId]\<close> that rewrites a lone greeting.\<close>

definition welcomeEffect ::
    "(ChatSession list \<Rightarrow> string) \<Rightarrow> (Language \<Rightarrow> Translation) \<Rightarrow> AppState \<Rightarrow> AppState" where
  "welcomeEffect stringify translations st =
     (case currentSessionId st of
        None \<Rightarrow> st
      | Some cur \<Rightarrow>
          if cur = [] then st
          else
            (let st1 = setSessions stringify
                         (map (\<lambda>s. case messages s of
                                      [m] \<Rightarrow>
                                        if sess_id s = cur
                                        then s\<lparr>messages :=
                                                 [m\<lparr>content :=
                                                      (if isKidMode s = Some True
                                                       then kidWelcome (translations (language st))
                                                       else welcome_msg (translations (language st)))\<rparr>]\<rparr>
                                        else s
                                    | _ \<Rightarrow> s)) st
             in st1\<lparr>localStorage :=
                      (localStorage st1)(''gemini_lang'' \<mapsto> language_code (language st))\<rparr>))"

text \<open>After a handler changed \<open>language\<close> or \<open>currentSessionId\<close>, React runs that effect.\<close>

definition runEffects ::
    "(ChatSession list \<Rightarrow> string) \<Rightarrow> (Language \<Rightarrow> Translation) \<Rightarrow> AppState \<Rightarrow> AppState \<Rightarrow> AppState" where
  "runEffects stringify translations before st =
     (if language st \<noteq> language before \<or> currentSessionId st \<noteq> currentSessionId before
      then welcomeEffect stringify translations st
      else st)"

definition createNewSession ::
    "(ChatSession list \<Rightarrow> string) \<Rightarrow> (Language \<Rightarrow> Translation) \<Rightarrow> string \<Rightarrow> string \<Rightarrow> int \<Rightarrow> int
      \<Rightarrow> AppState \<Rightarrow> AppState" where
  "createNewSession stringify translations uuid1 uuid2 now1 now2 st =
     (let newSession =
            \<lparr>sess_id = uuid1,
             title = newConversation (translations (language st)),
             messages = [\<lparr>msg_id = uuid2, role = MODEL,
                          content = welcome_msg (translations (language st)),
                          timestamp = now1, attachments = None, generatedImage = None,
                          isStreaming = None\<rparr>],
             updatedAt = now2,
             isKidMode = Some False\<rparr>;
          st1 = setSessions stringify (\<lambda>prev. newSession # prev) st
      in runEffects stringify translations st (st1\<lparr>currentSessionId := Some (sess_id newSession)\<rparr>))"

definition toggleKidMode ::
    "(ChatSession list \<Rightarrow> string) \<Rightarrow> (Language \<Rightarrow> Translation) \<Rightarrow> AppState \<Rightarrow> AppState" where
  "toggleKidMode stringify translations st =
     setSessions stringify
       (map (\<lambda>s. if Some (sess_id s) = currentSessionId st
                 then (let nextMode = (isKidMode s \<noteq> Some True);
                           msgs = (case messages s of
                                     [m] \<Rightarrow> [m\<lparr>content :=
                                                  (if nextMode
                                                   then kidWelcome (translations (language st))
                                                   else welcome_msg (translations (language st)))\<rparr>]
                                   | _ \<Rightarrow> messages s)
                       in s\<lparr>isKidMode := Some nextMode, messages := msgs\<rparr>)
                 else s)) st"

definition deleteSession ::
    "(ChatSession list \<Rightarrow> string) \<Rightarrow> (Language \<Rightarrow> Translation) \<Rightarrow> string \<Rightarrow> AppState \<Rightarrow> AppState" where
  "deleteSession stringify translations ident st =
     (let updated = filter (\<lambda>s. sess_id s \<noteq> ident) (sessions st);
          st1 = setSessions stringify (\<lambda>prev. updated) st;
          st2 = (if currentSessionId st = Some ident
                 then st1\<lparr>currentSessionId :=
                            (case updated of [] \<Rightarrow> None | s # rest \<Rightarrow> Some (sess_id s))\<rparr>
                 else st1)
      in runEffects stringify translations st st2)"

subsection \<open>handleSendMessage\<close>

text \<open>
  The callbacks handed to \<open>generateStreamingResponse\<close> close over \<open>currentSessionId\<close>,
  \<open>modelMessageId\<close> and the local variable \<open>fullResponse\<close>; their state is the pair of
  \<open>fullResponse\<close> and the component state.
\<close>

definition onChunk_cb ::
    "(ChatSession list \<Rightarrow> string) \<Rightarrow> string \<Rightarrow> string \<Rightarrow> string \<Rightarrow> string \<times> AppState \<Rightarrow> string \<times> AppState" where
  "onChunk_cb stringify cur modelMessageId chunk fs =
     (let fullResponse = fst fs @ chunk
      in (fullResponse,
          setSessions stringify
            (map (\<lambda>s. if sess_id s = cur
                      then s\<lparr>messages :=
                               map (\<lambda>m. if msg_id m = modelMessageId
                                        then m\<lparr>content := fullResponse\<rparr> else m) (messages s)\<rparr>
                      else s)) (snd fs)))"

definition onImageGenerated_cb ::
    "(ChatSession list \<Rightarrow> string) \<Rightarrow> string \<Rightarrow> string \<Rightarrow> string \<Rightarrow> string
      \<Rightarrow> string \<times> AppState \<Rightarrow> string \<times> AppState" where
  "onImageGenerated_cb stringify cur modelMessageId imageData mime fs =
     (fst fs,
      setSessions stringify
        (map (\<lambda>s. if sess_id s = cur
                  then s\<lparr>messages :=
                           map (\<lambda>m. if msg_id m = modelMessageId
                                    then m\<lparr>generatedImage :=
                                             Some \<lparr>img_data = imageData, img_mimeType = mime\<rparr>\<rparr>
                                    else m) (messages s)\<rparr>
                  else s)) (snd fs))"

definition playResponseAudio :: "string \<Rightarrow> AppState \<Rightarrow> AppState" where
  "playResponseAudio txt st = st\<lparr>ttsRequests := ttsRequests st @ [txt]\<rparr>"

text \<open>The first update of \<open>handleSendMessage\<close>: both messages are appended.\<close>

definition userMessage_of :: "string \<Rightarrow> string \<Rightarrow> Attachment list \<Rightarrow> int \<Rightarrow> Message" where
  "userMessage_of uuid1 txt atts now1 =
     \<lparr>msg_id = uuid1, role = USER, content = txt, timestamp = now1, attachments = Some atts,
      generatedImage = None, isStreaming = None\<rparr>"

definition initialModelMessage_of :: "string \<Rightarrow> int \<Rightarrow> Message" where
  "initialModelMessage_of modelMessageId now2 =
     \<lparr>msg_id = modelMessageId, role = MODEL, content = [], timestamp = now2, attachments = None,
      generatedImage = None, isStreaming = Some True\<rparr>"

definition send_begin ::
    "(ChatSession list \<Rightarrow> string) \<Rightarrow> (Language \<Rightarrow> Translation) \<Rightarrow> string \<Rightarrow> string \<Rightarrow> string
      \<Rightarrow> int \<Rightarrow> int \<Rightarrow> int \<Rightarrow> string \<Rightarrow> Attachment list \<Rightarrow> AppState \<Rightarrow> AppState" where
  "send_begin stringify translations cur uuid1 modelMessageId now1 now2 now3 txt atts st =
     (setSessions stringify
        (map (\<lambda>s. if sess_id s = cur
                  then s\<lparr>messages := messages s
                             @ [userMessage_of uuid1 txt atts now1,
                                initialModelMessage_of modelMessageId now2],
                         title := (if title s = newConversation (translations (language st))
                                   then take 30 txt else title s),
                         updatedAt := now3\<rparr>
                  else s)) st)\<lparr>isLoading := True\<rparr>"

text \<open>The update after the \<open>await\<close>: the streaming flag is cleared.\<close>

definition send_finish ::
    "(ChatSession list \<Rightarrow> string) \<Rightarrow> string \<Rightarrow> string \<Rightarrow> AppState \<Rightarrow> AppState" where
  "send_finish stringify cur modelMessageId st =
     setSessions stringify
       (map (\<lambda>s. if sess_id s = cur
                 then s\<lparr>messages :=
                          map (\<lambda>m. if msg_id m = modelMessageId
                                   then m\<lparr>isStreaming := Some False\<rparr> else m) (messages s)\<rparr>
                 else s)) st"

text \<open>
  \<open>currentMessages\<close>: the messages of the current session as the handler's closure sees them
  (before the append), then the user message.
\<close>

definition currentMessages_of :: "AppState \<Rightarrow> string \<Rightarrow> Message \<Rightarrow> Message list" where
  "currentMessages_of st cur userMessage =
     (case find (\<lambda>s. sess_id s = cur) (sessions st) of
        None \<Rightarrow> []
      | Some sessionToUse \<Rightarrow> messages sessionToUse) @ [userMessage]"

text \<open>
  \<open>handleSendMessage\<close>, with the two \<open>crypto.randomUUID()\<close> results and the three
  \<open>Date.now()\<close> results as parameters. It returns the SDK call it made, if any, and the
  state when the handler is over.
\<close>

definition handleSendMessage ::
    "Sdk \<Rightarrow> (ChatSession list \<Rightarrow> string) \<Rightarrow> (Language \<Rightarrow> Translation) \<Rightarrow> string \<Rightarrow> string
      \<Rightarrow> int \<Rightarrow> int \<Rightarrow> int \<Rightarrow> string \<Rightarrow> Attachment list \<Rightarrow> AppState \<Rightarrow> SdkCall option \<times> AppState" where
  "handleSendMessage sdk stringify translations uuid1 uuid2 now1 now2 now3 txt atts st =
     (case currentSessionId st of
        None \<Rightarrow> (None, st)
      | Some cur \<Rightarrow>
          if cur = [] then (None, st)
          else
            (let st1 = send_begin stringify translations cur uuid1 uuid2 now1 now2 now3 txt atts st;
                 currentMessages = currentMessages_of st cur (userMessage_of uuid1 txt atts now1);
                 kid = isKidModeNow st
             in (case generateStreamingResponse sdk translations currentMessages (language st) kid
                        (onChunk_cb stringify cur uuid2)
                        (Some (onImageGenerated_cb stringify cur uuid2)) ([], st1) of
                   (call, Inr r, fs) \<Rightarrow>
                     (let st2 = send_finish stringify cur uuid2 (snd fs);
                          st3 = (if kid then playResponseAudio (fst fs) st2 else st2)
                      in (Some call, st3\<lparr>isLoading := False\<rparr>))
                 | (call, Inl e, fs) \<Rightarrow> (Some call, (snd fs)\<lparr>isLoading := False\<rparr>))))"

subsection \<open>The live session: decodeAudioData and onmessage\<close>

record AudioBuffer =
  numberOfChannels :: nat
  frameCount :: nat
  sampleRate :: nat
  duration :: rat

text \<open>
  \<open>decodeAudioData\<close>: \<^verbatim>\<open>new Int16Array(data.buffer)\<close> raises a RangeError on an odd byte
  length, \<open>createBuffer\<close> a NotSupportedError when there is no frame or no channel. Only the
  shape of the buffer is modelled, not its samples.
\<close>

definition decodeAudioData :: "8 word list \<Rightarrow> nat \<Rightarrow> nat \<Rightarrow> js_error + AudioBuffer" where
  "decodeAudioData bytes rate numChannels =
     (if length bytes mod 2 \<noteq> 0 then Inl RangeError
      else
        (let frames = (length bytes div 2) div numChannels
         in if numChannels = 0 \<or> frames = 0 \<or> rate = 0 then Inl NotSupportedError
            else Inr \<lparr>numberOfChannels = numChannels, frameCount = frames, sampleRate = rate,
                      duration = of_nat frames / of_nat rate\<rparr>))"

record ServerContent =
  inputTranscription :: "string option option"
  outputTranscription :: "string option option"
  modelTurn :: "Part list option option"
  interrupted :: bool
  turnComplete :: bool

record LiveServerMessage =
  serverContent :: "ServerContent option"

text \<open>A string concatenated with \<open>undefined\<close> gets the text "undefined".\<close>

definition js_string_of :: "string option \<Rightarrow> string" where
  "js_string_of t = (case t of None \<Rightarrow> ''undefined'' | Some s \<Rightarrow> s)"

definition accumulate_transcriptions :: "LiveServerMessage \<Rightarrow> AppState \<Rightarrow> AppState" where
  "accumulate_transcriptions message st =
     (case serverContent message of
        None \<Rightarrow> st
      | Some sc \<Rightarrow>
          (let st1 = (case inputTranscription sc of
                        None \<Rightarrow> st
                      | Some t \<Rightarrow> st\<lparr>transcription_input := transcription_input st @ js_string_of t\<rparr>)
           in (case outputTranscription sc of
                 None \<Rightarrow> st1
               | Some t \<Rightarrow>
                   st1\<lparr>transcription_output := transcription_output st1 @ js_string_of t\<rparr>)))"

text \<open>
  \<^verbatim>\<open>message.serverContent?.modelTurn?.parts[0]?.inlineData?.data\<close>: a \<open>modelTurn\<close> without
  \<open>parts\<close> raises a TypeError.
\<close>

definition message_audioData :: "LiveServerMessage \<Rightarrow> js_error + string option" where
  "message_audioData message =
     (case serverContent message of
        None \<Rightarrow> Inr None
      | Some sc \<Rightarrow>
          (case modelTurn sc of
             None \<Rightarrow> Inr None
           | Some None \<Rightarrow> Inl TypeError
           | Some (Some []) \<Rightarrow> Inr None
           | Some (Some (p # ps)) \<Rightarrow>
               (case inlineData p of None \<Rightarrow> Inr None | Some b \<Rightarrow> Inr (Some (blob_data b)))))"

text \<open>The audio step: the state it leaves, and the exception if it raised one.\<close>

definition schedule_audio :: "rat \<Rightarrow> string \<Rightarrow> AppState \<Rightarrow> js_error option \<times> AppState" where
  "schedule_audio currentTime audioData st =
     (let st1 = st\<lparr>nextStartTime := max (nextStartTime st) currentTime\<rparr>
      in (case decode audioData of
            Inl e \<Rightarrow> (Some e, st1)
          | Inr bytes \<Rightarrow>
              (case decodeAudioData bytes 24000 1 of
                 Inl e \<Rightarrow> (Some e, st1)
               | Inr buffer \<Rightarrow>
                   (let source = \<lparr>src_start = nextStartTime st1,
                                  src_duration = duration buffer\<rparr>
                    in (None,
                        st1\<lparr>nextStartTime := nextStartTime st1 + duration buffer,
                            audioSources := audioSources st1 @ [source],
                            startedSources := startedSources st1 @ [source]\<rparr>)))))"

text \<open>\<^verbatim>\<open>source.onended = () => audioSourcesRef.current.delete(source)\<close>\<close>

definition source_onended :: "AudioSource \<Rightarrow> AppState \<Rightarrow> AppState" where
  "source_onended source st = st\<lparr>audioSources := remove1 source (audioSources st)\<rparr>"

definition interrupt_step :: "LiveServerMessage \<Rightarrow> AppState \<Rightarrow> AppState" where
  "interrupt_step message st =
     (case serverContent message of
        None \<Rightarrow> st
      | Some sc \<Rightarrow>
          if interrupted sc
          then st\<lparr>stoppedSources := stoppedSources st @ audioSources st,
                  audioSources := [], nextStartTime := 0\<rparr>
          else st)"

definition turnComplete_step ::
    "(ChatSession list \<Rightarrow> string) \<Rightarrow> string option \<Rightarrow> string \<Rightarrow> string \<Rightarrow> int \<Rightarrow> int \<Rightarrow> int
      \<Rightarrow> LiveServerMessage \<Rightarrow> AppState \<Rightarrow> AppState" where
  "turnComplete_step stringify cur uuid1 uuid2 now1 now2 now3 message st =
     (case serverContent message of
        None \<Rightarrow> st
      | Some sc \<Rightarrow>
          if turnComplete sc \<and> (transcription_input st \<noteq> [] \<or> transcription_output st \<noteq> [])
          then
            (let userMsg = \<lparr>msg_id = uuid1, role = USER,
                            content = (if transcription_input st \<noteq> []
                                       then transcription_input st else ''[Audio]''),
                            timestamp = now1, attachments = None, generatedImage = None,
                            isStreaming = None\<rparr>;
                 modelMsg = \<lparr>msg_id = uuid2, role = MODEL,
                             content = (if transcription_output st \<noteq> []
                                        then transcription_output st else ''[Audio Response]''),
                             timestamp = now2, attachments = None, generatedImage = None,
                             isStreaming = None\<rparr>
             in (setSessions stringify
                   (map (\<lambda>s. if Some (sess_id s) = cur
                             then s\<lparr>messages := messages s @ [userMsg, modelMsg],
                                    updatedAt := now3\<rparr>
                             else s)) st)
                \<lparr>transcription_input := [], transcription_output := []\<rparr>)
          else st)"

text \<open>
  \<open>onmessage\<close>, one message handled from start to end. \<open>cur\<close> is the \<open>currentSessionId\<close> the
  callback closed over, \<open>currentTime\<close> the clock of the output audio context. The result is
  the exception that ended the handler, if any, and the state it leaves.
\<close>

definition onmessage ::
    "(ChatSession list \<Rightarrow> string) \<Rightarrow> string option \<Rightarrow> rat \<Rightarrow> string \<Rightarrow> string \<Rightarrow> int \<Rightarrow> int \<Rightarrow> int
      \<Rightarrow> LiveServerMessage \<Rightarrow> AppState \<Rightarrow> js_error option \<times> AppState" where
  "onmessage stringify cur currentTime uuid1 uuid2 now1 now2 now3 message st =
     (let st1 = accumulate_transcriptions message st
      in (case message_audioData message of
            Inl e \<Rightarrow> (Some e, st1)
          | Inr a \<Rightarrow>
              (case (case a of
                       None \<Rightarrow> (None, st1)
                     | Some audioData \<Rightarrow>
                         if audioData \<noteq> [] then schedule_audio currentTime audioData st1
                         else (None, st1)) of
                 (Some e, st2) \<Rightarrow> (Some e, st2)
               | (None, st2) \<Rightarrow>
                   (None,
                    turnComplete_step stringify cur uuid1 uuid2 now1 now2 now3 message
                      (interrupt_step message st2)))))"

subsection \<open>Selecting a session, changing the language\<close>

text \<open>
  The sidebar's \<^verbatim>\<open>onClick={() => setCurrentSessionId(s.id)}\<close> and the language buttons'
  \<^verbatim>\<open>onClick={() => setLanguage(l.code)}\<close>. Neither calls \<open>setSessions\<close> itself.
\<close>

definition selectSession ::
    "(ChatSession list \<Rightarrow> string) \<Rightarrow> (Language \<Rightarrow> Translation) \<Rightarrow> string \<Rightarrow> AppState \<Rightarrow> AppState" where
  "selectSession stringify translations ident st =
     runEffects stringify translations st (st\<lparr>currentSessionId := Some ident\<rparr>)"

definition changeLanguage ::
    "(ChatSession list \<Rightarrow> string) \<Rightarrow> (Language \<Rightarrow> Translation) \<Rightarrow> Language \<Rightarrow> AppState \<Rightarrow> AppState" where
  "changeLanguage stringify translations lang st =
     runEffects stringify translations st (st\<lparr>language := lang\<rparr>)"

subsection \<open>The operations of the store\<close>

text \<open>
  One constructor per handler that can change \<open>sessions\<close>, with the values the handler draws
  from its environment (\<open>crypto.randomUUID()\<close>, \<open>Date.now()\<close>, the SDK's answer, the clock of
  the audio context) as arguments.
\<close>

datatype StoreOp =
    OpCreateNewSession string string int int
  | OpDeleteSession string
  | OpToggleKidMode
  | OpSelectSession string
  | OpChangeLanguage Language
  | OpSendMessage Sdk string string int int int string "Attachment list"
  | OpLiveMessage "string option" rat string string int int int LiveServerMessage

fun apply_op ::
    "(ChatSession list \<Rightarrow> string) \<Rightarrow> (Language \<Rightarrow> Translation) \<Rightarrow> StoreOp \<Rightarrow> AppState \<Rightarrow> AppState" where
  "apply_op stringify translations (OpCreateNewSession uuid1 uuid2 now1 now2) st =
     createNewSession stringify translations uuid1 uuid2 now1 now2 st"
| "apply_op stringify translations (OpDeleteSession ident) st =
     deleteSession stringify translations ident st"
| "apply_op stringify translations OpToggleKidMode st = toggleKidMode stringify translations st"
| "apply_op stringify translations (OpSelectSession ident) st =
     selectSession stringify translations ident st"
| "apply_op stringify translations (OpChangeLanguage lang) st =
     changeLanguage stringify translations lang st"
| "apply_op stringify translations (OpSendMessage sdk uuid1 uuid2 now1 now2 now3 txt atts) st =
     snd (handleSendMessage sdk stringify translations uuid1 uuid2 now1 now2 now3 txt atts st)"
| "apply_op stringify translations (OpLiveMessage cur currentTime uuid1 uuid2 now1 now2 now3 message) st =
     snd (onmessage stringify cur currentTime uuid1 uuid2 now1 now2 now3 message st)"

fun run_ops ::
    "(ChatSession list \<Rightarrow> string) \<Rightarrow> (Language \<Rightarrow> Translation) \<Rightarrow> StoreOp list \<Rightarrow> AppState \<Rightarrow> AppState" where
  "run_ops stringify translations [] st = st"
| "run_ops stringify translations (x # xs) st =
     run_ops stringify translations xs (apply_op stringify translations x st)"








section \<open>components/ChatInput.tsx\<close>












section \<open>Observations of a run\<close>

text \<open>
  What the streaming loop hands to the chunk callback, in order: the non-empty texts of the
  chunks that arrive before the stream ends or throws; and the exception of the stream, if
  it throws.
\<close>

fun delivered_chunks :: "SdkStream \<Rightarrow> string list" where
  "delivered_chunks StreamEnd = []"
| "delivered_chunks (StreamThrow e) = []"
| "delivered_chunks (StreamChunk t rest) =
     (case t of
        Some txt \<Rightarrow> if txt \<noteq> [] then txt # delivered_chunks rest else delivered_chunks rest
      | None \<Rightarrow> delivered_chunks rest)"

fun stream_error :: "SdkStream \<Rightarrow> js_error option" where
  "stream_error StreamEnd = None"
| "stream_error (StreamThrow e) = Some e"
| "stream_error (StreamChunk t rest) = stream_error rest"

text \<open>The callbacks a response part gives rise to, and the running of one callback.\<close>

datatype Callback = ChunkCallback string | ImageCallback string string

definition part_callbacks :: "Part \<Rightarrow> Callback list" where
  "part_callbacks p =
     (case part_text p of Some t \<Rightarrow> if t \<noteq> [] then [ChunkCallback t] else [] | None \<Rightarrow> [])
       @ (case inlineData p of
            Some b \<Rightarrow> [ImageCallback (blob_data b) (blob_mimeType b)]
          | None \<Rightarrow> [])"

fun run_callback ::
    "(string \<Rightarrow> 's \<Rightarrow> 's) \<Rightarrow> (string \<Rightarrow> string \<Rightarrow> 's \<Rightarrow> 's) \<Rightarrow> 's \<Rightarrow> Callback \<Rightarrow> 's" where
  "run_callback onChunk onImageGenerated st (ChunkCallback t) = onChunk t st"
| "run_callback onChunk onImageGenerated st (ImageCallback d m) = onImageGenerated d m st"



text \<open>The state of a send after the chunk callback has run on each of \<open>cs\<close>, in order.\<close>

definition after_chunks ::
    "(ChatSession list \<Rightarrow> string) \<Rightarrow> string \<Rightarrow> string \<Rightarrow> string list \<Rightarrow> string \<times> AppState
      \<Rightarrow> string \<times> AppState" where
  "after_chunks stringify cur modelMessageId cs fs =
     foldl (\<lambda>acc c. onChunk_cb stringify cur modelMessageId c acc) fs cs"




section \<open>Sample values\<close>

definition sample_translations :: "Language \<Rightarrow> Translation" where
  "sample_translations lang =
     \<lparr>newConversation = ''New Conversation'', welcome_msg = ''Hello!'', kidWelcome = ''Hi there!'',
      systemInstruction = ''You are a helpful assistant.'',
      kidInstruction = ''You are a friendly teacher.''\<rparr>"

definition sample_greeting :: Message where
  "sample_greeting =
     \<lparr>msg_id = ''m0'', role = MODEL, content = ''Hello!'', timestamp = 1000, attachments = None,
      generatedImage = None, isStreaming = None\<rparr>"

definition sample_session :: ChatSession where
  "sample_session =
     \<lparr>sess_id = ''s1'', title = ''New Conversation'', messages = [sample_greeting],
      updatedAt = 1000, isKidMode = Some False\<rparr>"

definition sample_state :: "(ChatSession list \<Rightarrow> string) \<Rightarrow> AppState" where
  "sample_state stringify =
     \<lparr>sessions = [sample_session], currentSessionId = Some ''s1'', isLoading = False,
      language = EN, localStorage = [''gemini_sessions'' \<mapsto> stringify [sample_session]],
      ttsRequests = [], nextStartTime = 0, audioSources = [], startedSources = [],
      stoppedSources = [], transcription_input = [], transcription_output = []\<rparr>"




section \<open>Platform model: JSON.stringify of the session list\<close>

text \<open>
  \<open>JSON.stringify\<close> is a browser builtin. The handlers above take it as the parameter
  \<open>stringify\<close>; this is a rendering of it on the modelled records, for use where a concrete
  serializer is needed: decimal integers, quoted strings with the escapes of the JSON
  grammar, the keys of an object in the order of \<open>types.ts\<close>, a key left out when its value
  is \<open>undefined\<close>.
\<close>

function show_nat :: "nat \<Rightarrow> string" where
  "show_nat n =
     (if n < 10 then [char_of (48 + n)]
      else show_nat (n div 10) @ [char_of (48 + n mod 10)])"
  by pat_completeness auto
termination
  by (relation "measure id") auto

declare show_nat.simps [simp del]

definition show_int :: "int \<Rightarrow> string" where
  "show_int i = (if i < 0 then CHR ''-'' # show_nat (nat (- i)) else show_nat (nat i))"

definition hex_digit :: "nat \<Rightarrow> char" where
  "hex_digit n = (if n < 10 then char_of (48 + n) else char_of (87 + n))"

definition json_escape :: "char \<Rightarrow> string" where
  "json_escape c =
     (let n = (of_char c :: nat)
      in if n = 0x22 then [CHR 0x5C, CHR 0x22]
         else if n = 0x5C then [CHR 0x5C, CHR 0x5C]
         else if n = 8 then [CHR 0x5C, CHR ''b'']
         else if n = 12 then [CHR 0x5C, CHR ''f'']
         else if n = 10 then [CHR 0x5C, CHR ''n'']
         else if n = 13 then [CHR 0x5C, CHR ''r'']
         else if n = 9 then [CHR 0x5C, CHR ''t'']
         else if n < 32
           then [CHR 0x5C, CHR ''u'', CHR ''0'', CHR ''0'', hex_digit (n div 16), hex_digit (n mod 16)]
         else [c])"

definition json_string :: "string \<Rightarrow> string" where
  "json_string s = CHR 0x22 # concat (map json_escape s) @ [CHR 0x22]"

fun join_with :: "string \<Rightarrow> string list \<Rightarrow> string" where
  "join_with sep [] = []"
| "join_with sep [x] = x"
| "join_with sep (x # y # ys) = x @ sep @ join_with sep (y # ys)"

definition json_array :: "string list \<Rightarrow> string" where
  "json_array vs = CHR ''['' # join_with '','' vs @ '']''"

fun json_fields :: "(string \<times> string option) list \<Rightarrow> string list" where
  "json_fields [] = []"
| "json_fields ((k, None) # fs) = json_fields fs"
| "json_fields ((k, Some v) # fs) = (json_string k @ '':'' @ v) # json_fields fs"

definition json_object :: "(string \<times> string option) list \<Rightarrow> string" where
  "json_object fs = CHR ''{'' # join_with '','' (json_fields fs) @ ''}''"

definition json_bool :: "bool \<Rightarrow> string" where
  "json_bool b = (if b then ''true'' else ''false'')"

fun role_string :: "Role \<Rightarrow> string" where
  "role_string USER = ''user''"
| "role_string MODEL = ''model''"
| "role_string SYSTEM = ''system''"

definition json_attachment :: "Attachment \<Rightarrow> string" where
  "json_attachment a =
     json_object [(''mimeType'', Some (json_string (mimeType a))),
                  (''data'', map_option json_string (data a)),
                  (''url'', map_option json_string (url a))]"

definition json_image :: "GeneratedImage \<Rightarrow> string" where
  "json_image g =
     json_object [(''data'', Some (json_string (img_data g))),
                  (''mimeType'', Some (json_string (img_mimeType g)))]"

definition json_message :: "Message \<Rightarrow> string" where
  "json_message m =
     json_object [(''id'', Some (json_string (msg_id m))),
                  (''role'', Some (json_string (role_string (role m)))),
                  (''content'', Some (json_string (content m))),
                  (''timestamp'', Some (show_int (timestamp m))),
                  (''attachments'',
                     map_option (\<lambda>as. json_array (map json_attachment as)) (attachments m)),
                  (''generatedImage'', map_option json_image (generatedImage m)),
                  (''isStreaming'', map_option json_bool (isStreaming m))]"

definition json_session :: "ChatSession \<Rightarrow> string" where
  "json_session s =
     json_object [(''id'', Some (json_string (sess_id s))),
                  (''title'', Some (json_string (title s))),
                  (''messages'', Some (json_array (map json_message (messages s)))),
                  (''updatedAt'', Some (show_int (updatedAt s))),
                  (''isKidMode'', map_option json_bool (isKidMode s))]"

definition JSON_stringify :: "ChatSession list \<Rightarrow> string" where
  "JSON_stringify ss = json_array (map json_session ss)"

section \<open>components/ChatMessage.tsx\<close>

text \<open>
  The view is the tree of elements the component returns: a tag, its attributes
  (\<open>className\<close> among them), what a click does, and the children. What the render reads
  beyond its props is the runtime: \<open>toLocaleTimeString\<close> formats the time stamp in the
  runtime's locale and time zone. The runtime also has a clock (\<open>Date.now()\<close>) and the
  downloads started through the document, which only the click handler \<open>downloadImage\<close>
  touches. Of the locale, the model keeps the offset of the time zone from UTC in minutes
  and whether the clock is a twelve-hour one.
\<close>

datatype ClickAction = DownloadImage string string | PlayAudio string

datatype VNode =
    Element string "(string \<times> string) list" "ClickAction option" "VNode list"
  | TextNode string

record Runtime =
  timeZoneOffset :: int
  hour12 :: bool
  clock :: int
  downloads :: "(string \<times> string) list"

record ChatMessageProps =
  message :: Message
  userProfilePic :: "string option"
  prop_isKidMode :: "bool option"

definition two_digits :: "nat \<Rightarrow> string" where
  "two_digits n = [char_of (48 + (n div 10) mod 10), char_of (48 + n mod 10)]"

definition toLocaleTimeString :: "Runtime \<Rightarrow> int \<Rightarrow> string" where
  "toLocaleTimeString rt ms =
     (let minutes = nat ((ms div 60000 + timeZoneOffset rt) mod 1440);
          h = minutes div 60;
          mi = minutes mod 60
      in if hour12 rt
         then two_digits (if h mod 12 = 0 then 12 else h mod 12) @ '':'' @ two_digits mi
                @ (if h < 12 then '' AM'' else '' PM'')
         else two_digits h @ '':'' @ two_digits mi)"

definition downloadImage :: "string \<Rightarrow> string \<Rightarrow> Runtime \<Rightarrow> Runtime" where
  "downloadImage d mt rt =
     rt\<lparr>downloads := downloads rt
           @ [(''data:'' @ mt @ '';base64,'' @ d,
               ''gemini-pulse-creation-'' @ show_int (clock rt) @ ''.png'')]\<rparr>"

definition avatar_view :: "bool \<Rightarrow> bool \<Rightarrow> string option \<Rightarrow> VNode" where
  "avatar_view isUser kid pic =
     Element ''div''
       [(''className'',
         ''flex-shrink-0 h-9 w-9 md:h-11 md:w-11 rounded-2xl flex items-center justify-center text-xs font-bold shadow-xl transition-all hover:scale-105 overflow-hidden ''
           @ (if isUser
              then ''ml-3 md:ml-4 bg-indigo-600 shadow-indigo-600/30 border border-indigo-500/50''
              else if kid
              then ''mr-3 md:mr-4 bg-pink-500 border border-pink-400 shadow-pink-500/20''
              else ''mr-3 md:mr-4 bg-slate-800 shadow-black/20 border border-slate-700''))]
       None
       [if isUser
        then (case pic of
                Some src \<Rightarrow>
                  if src \<noteq> []
                  then Element ''img''
                         [(''src'', src), (''alt'', ''User''),
                          (''className'', ''w-full h-full object-cover'')] None []
                  else Element ''i'' [(''className'', ''fas fa-user text-sm md:text-base'')] None []
              | None \<Rightarrow> Element ''i'' [(''className'', ''fas fa-user text-sm md:text-base'')] None [])
        else Element ''div''
               [(''className'',
                 ''w-full h-full flex items-center justify-center ''
                   @ (if kid then ''bg-gradient-to-br from-pink-400 to-orange-500''
                      else ''bg-gradient-to-br from-emerald-500 to-teal-700''))]
               None
               [Element ''i''
                  [(''className'',
                    ''fas '' @ (if kid then ''fa-face-smile-beam'' else ''fa-robot'')
                      @ '' text-sm md:text-base text-white'')] None []]]"

definition attachments_view :: "Message \<Rightarrow> VNode list" where
  "attachments_view m =
     (case attachments m of
        None \<Rightarrow> []
      | Some as \<Rightarrow>
          if 0 < length as
          then [Element ''div'' [(''className'', ''flex flex-wrap gap-2.5 mb-3.5'')] None
                  (map (\<lambda>att.
                          Element ''div''
                            [(''className'',
                              ''relative group overflow-hidden rounded-2xl border border-white/20 shadow-lg'')]
                            None
                            [Element ''img''
                               [(''src'',
                                 ''data:'' @ mimeType att @ '';base64,'' @ js_string_of (data att)),
                                (''alt'', ''attachment''),
                                (''className'',
                                 ''max-w-[240px] md:max-w-[320px] max-h-[350px] object-cover transition-transform group-hover:scale-105 duration-500'')]
                               None []]) as)]
          else [])"

definition generatedImage_view :: "Message \<Rightarrow> VNode list" where
  "generatedImage_view m =
     (case generatedImage m of
        None \<Rightarrow> []
      | Some g \<Rightarrow>
          [Element ''div''
             [(''className'',
               ''mb-4 relative group/img overflow-hidden rounded-2xl border border-indigo-500/40 bg-black/60 p-1.5 shadow-2xl'')]
             None
             [Element ''div''
                [(''className'',
                  ''absolute top-4 right-4 z-10 opacity-0 group-hover/img:opacity-100 transition-all duration-300 scale-90 group-hover/img:scale-100'')]
                None
                [Element ''button''
                   [(''className'',
                     ''bg-indigo-600/90 hover:bg-indigo-500 backdrop-blur-xl text-white w-10 h-10 flex items-center justify-center rounded-xl shadow-xl border border-indigo-400/50 transition-all active:scale-90''),
                    (''title'', ''Download creation'')]
                   (Some (DownloadImage (img_data g) (img_mimeType g)))
                   [Element ''i'' [(''className'', ''fas fa-download'')] None []]],
              Element ''img''
                [(''src'', ''data:'' @ img_mimeType g @ '';base64,'' @ img_data g),
                 (''alt'', ''AI Creation''),
                 (''className'', ''w-full h-auto rounded-xl'')] None [],
              Element ''div''
                [(''className'', ''mt-2.5 px-2 pb-1.5 flex items-center justify-between'')] None
                [Element ''span''
                   [(''className'',
                     ''text-[10px] font-black text-indigo-400 uppercase tracking-[0.2em] flex items-center gap-2'')]
                   None
                   [Element ''span''
                      [(''className'', ''w-1.5 h-1.5 bg-indigo-500 rounded-full animate-pulse'')]
                      None [],
                    TextNode ''Gemini AI Vision'']]]])"

definition content_view :: "bool \<Rightarrow> Message \<Rightarrow> VNode" where
  "content_view kid m =
     Element ''div'' [(''className'', ''prose prose-invert max-w-none'')] None
       [Element ''div''
          [(''className'',
            ''whitespace-pre-wrap leading-relaxed selection:bg-white/20 ''
              @ (if kid then ''text-lg md:text-xl font-bold''
                 else ''text-[15px] md:text-base font-medium''))]
          None
          ((let shown = (if content m \<noteq> [] then content m
                         else if generatedImage m \<noteq> None then [] else ''...'')
            in if shown \<noteq> [] then [TextNode shown] else [])
           @ (if isStreaming m = Some True
              then [Element ''span''
                      [(''className'',
                        ''inline-block w-2 h-5 ml-1 rounded-full animate-pulse align-middle ''
                          @ (if kid then ''bg-pink-300'' else ''bg-indigo-300/60''))]
                      None []]
              else []))]"

definition playButton_view :: "bool \<Rightarrow> bool \<Rightarrow> Message \<Rightarrow> VNode list" where
  "playButton_view isUser kid m =
     (if \<not> isUser \<and> isStreaming m \<noteq> Some True \<and> content m \<noteq> []
      then [Element ''button''
              [(''className'',
                ''mt-3 flex items-center gap-2 px-3 py-1.5 rounded-full text-[10px] font-black uppercase tracking-widest transition-all ''
                  @ (if kid then ''bg-white/20 hover:bg-white/30 text-white''
                     else ''bg-slate-700 hover:bg-slate-600 text-slate-300''))]
              (Some (PlayAudio (content m)))
              [Element ''i'' [(''className'', ''fas fa-volume-up'')] None [],
               TextNode (if kid then ''Magic Voice'' else ''Play'')]]
      else [])"

definition ChatMessage :: "Runtime \<Rightarrow> ChatMessageProps \<Rightarrow> VNode" where
  "ChatMessage rt props =
     (let m = message props;
          isUser = (role m = USER);
          kid = (prop_isKidMode props = Some True)
      in Element ''div''
           [(''className'',
             ''flex w-full mb-8 '' @ (if isUser then ''justify-end'' else ''justify-start'')
               @ '' animate-in fade-in slide-in-from-bottom-4 duration-500'')]
           None
           [Element ''div''
              [(''className'',
                ''flex w-full md:max-w-[85%] ''
                  @ (if isUser then ''flex-row-reverse'' else ''flex-row''))]
              None
              [avatar_view isUser kid (userProfilePic props),
               Element ''div''
                 [(''className'',
                   ''flex flex-col min-w-0 '' @ (if isUser then ''items-end'' else ''items-start''))]
                 None
                 [Element ''div''
                    [(''className'',
                      ''px-4 py-3.5 md:px-5 md:py-4 rounded-3xl shadow-2xl backdrop-blur-md relative group/bubble ''
                        @ (if isUser
                           then ''bg-indigo-600 text-white rounded-tr-none border border-indigo-400/30''
                           else if kid
                           then ''bg-pink-600/90 text-white rounded-tl-none border border-pink-400/40''
                           else ''bg-slate-800/80 text-slate-100 rounded-tl-none border border-slate-700/50''))]
                    None
                    (attachments_view m @ generatedImage_view m @ [content_view kid m]
                       @ playButton_view isUser kid m),
                  Element ''span''
                    [(''className'',
                      ''text-[10px] mt-2 text-slate-500 font-black uppercase tracking-widest px-1 opacity-80'')]
                    None
                    [TextNode (toLocaleTimeString rt (timestamp m))]]]])"

definition sample_props :: ChatMessageProps where
  "sample_props = \<lparr>message = sample_greeting, userProfilePic = None, prop_isKidMode = Some False\<rparr>"

definition utc_runtime :: Runtime where
  "utc_runtime = \<lparr>timeZoneOffset = 0, hour12 = False, clock = 0, downloads = []\<rparr>"

definition cet_runtime :: Runtime where
  "cet_runtime = \<lparr>timeZoneOffset = 60, hour12 = False, clock = 0, downloads = []\<rparr>"

section \<open>Observations of the live session and of the store\<close>






text \<open>
  \<open>persisted\<close>: the stored value under the sessions key is the serialization of the session
  list, or the list is empty.
\<close>

definition stored_sessions :: "AppState \<Rightarrow> string option" where
  "stored_sessions st = localStorage st ''gemini_sessions''"

definition persisted :: "(ChatSession list \<Rightarrow> string) \<Rightarrow> AppState \<Rightarrow> bool" where
  "persisted stringify st =
     (sessions st = [] \<or> stored_sessions st = Some (stringify (sessions st)))"

text \<open>
  Two relations between the state before and after a step, for the proofs about the store.
  \<open>map_step\<close>: the step keeps the number of sessions, leaves the store persisted unless it
  changed neither the sessions nor the stored value, and writes nothing while there is no
  session. \<open>same_ids\<close>: the step keeps every identifier where it was.
\<close>

definition map_step :: "(ChatSession list \<Rightarrow> string) \<Rightarrow> AppState \<Rightarrow> AppState \<Rightarrow> bool" where
  "map_step stringify st st' =
     (length (sessions st') = length (sessions st)
      \<and> (persisted stringify st'
           \<or> (sessions st' = sessions st \<and> stored_sessions st' = stored_sessions st))
      \<and> (sessions st \<noteq> [] \<or> stored_sessions st' = stored_sessions st))"


section \<open>Sample values of the live session and of the input\<close>




section \<open>Properties\<close>

lemma b64chars_length: "length b64chars = 64"
  by (simp add: b64chars_def)

subsection \<open>Base64\<close>

lemma b64chars_distinct: "distinct b64chars"
  by (simp add: b64chars_def)

lemma b64_index_nth: "i < 64 \<Longrightarrow> b64_index (b64chars ! i) = Some i"
  unfolding b64_index_def
  using map_of_zip_nth[of b64chars "[0..<64]" i] b64chars_distinct
  by (simp add: b64chars_length)

lemma sextets_lt: "\<forall>b\<in>set bs. b < 256 \<Longrightarrow> \<forall>x\<in>set (bytes_to_sextets bs). x < 64"
  by (induction bs rule: bytes_to_sextets.induct) (auto simp: less_mult_imp_div_less)

lemma sextets_roundtrip:
  "\<forall>b\<in>set bs. b < 256 \<Longrightarrow> sextets_to_bytes (bytes_to_sextets bs) = bs"
  by (induction bs rule: bytes_to_sextets.induct) (auto simp: less_mult_imp_div_less)

lemma b64chars_plain:
  "c \<in> set b64chars \<Longrightarrow> \<not> is_ascii_whitespace c \<and> c \<noteq> CHR ''='' \<and> c \<noteq> CHR '',''"
  by (auto simp: b64chars_def is_ascii_whitespace_def)

lemma sextets_length:
  "length (bytes_to_sextets bs) =
     (if length bs mod 3 = 0 then 4 * (length bs div 3)
      else if length bs mod 3 = 1 then 4 * (length bs div 3) + 2
      else 4 * (length bs div 3) + 3)"
proof (induction bs rule: bytes_to_sextets.induct)
  case (1 a b c rest)
  have "length (a # b # c # rest) = length rest + 3" by simp
  then have m: "length (a # b # c # rest) mod 3 = length rest mod 3"
    and d: "length (a # b # c # rest) div 3 = length rest div 3 + 1"
    by simp_all
  show ?case unfolding m d using 1 by simp
qed simp_all

lemma strip_padding_pad:
  assumes "length (body @ replicate k (CHR ''='')) mod 4 = 0"
    and "k \<le> 2"
    and "body \<noteq> [] \<Longrightarrow> last body \<noteq> CHR ''=''"
    and "0 < k \<Longrightarrow> body \<noteq> []"
  shows "strip_padding (body @ replicate k (CHR ''='')) = body"
proof -
  consider "k = 0" | "k = 1" | "k = 2" using assms(2) by linarith
  then show ?thesis
  proof cases
    case 1
    then show ?thesis using assms by (auto simp: strip_padding_def)
  next
    case 2
    then show ?thesis using assms by (auto simp: strip_padding_def)
  next
    case 3
    then have "replicate k (CHR ''='') = [CHR ''='', CHR ''='']"
      by (simp add: numeral_2_eq_2)
    then show ?thesis using assms by (auto simp: strip_padding_def butlast_append)
  qed
qed

lemma those_b64_index:
  "\<forall>x\<in>set xs. x < 64 \<Longrightarrow> those (map b64_index (map (\<lambda>i. b64chars ! i) xs)) = Some xs"
  by (induction xs) (simp_all add: b64_index_nth)


lemma atob_btoa: "atob (btoa s) = Inr s"
proof -
  define bs :: "nat list" where "bs = map of_char s"
  define xs where "xs = bytes_to_sextets bs"
  define body where "body = map (\<lambda>i. b64chars ! i) xs"
  define k where "k = (3 - length bs mod 3) mod 3"
  have bs_lt: "\<forall>b\<in>set bs. b < 256" by (auto simp: bs_def)
  have xs_lt: "\<forall>x\<in>set xs. x < 64" unfolding xs_def using sextets_lt[OF bs_lt] .
  have body_set: "set body \<subseteq> set b64chars"
    using xs_lt by (auto simp: body_def b64chars_length)
  have enc: "btoa s = body @ replicate k (CHR ''='')"
    by (simp add: btoa_def Let_def bs_def xs_def body_def k_def)
  have lenxs: "length xs = (if length bs mod 3 = 0 then 4 * (length bs div 3)
      else if length bs mod 3 = 1 then 4 * (length bs div 3) + 2
      else 4 * (length bs div 3) + 3)"
    unfolding xs_def by (rule sextets_length)
  have lenb: "length body = length xs" by (simp add: body_def)
  consider (r0) "length bs mod 3 = 0" | (r1) "length bs mod 3 = 1" | (r2) "length bs mod 3 = 2"
    by linarith
  then have lens: "k \<le> 2 \<and> (length xs + k) mod 4 = 0 \<and> length xs mod 4 \<noteq> 1
      \<and> (0 < k \<longrightarrow> 0 < length xs)"
  proof cases
    case r0
    then have "length xs = 4 * (length bs div 3)" and "k = 0" by (simp_all add: lenxs k_def)
    then show ?thesis by simp
  next
    case r1
    then have "length xs = 4 * (length bs div 3) + 2" and "k = 2" by (simp_all add: lenxs k_def)
    then show ?thesis by (simp add: mod_Suc)
  next
    case r2
    then have "length xs = 4 * (length bs div 3) + 3" and "k = 1" by (simp_all add: lenxs k_def)
    then show ?thesis by (simp add: mod_Suc)
  qed
  have k_le: "k \<le> 2" using lens by simp
  have len0': "length (body @ replicate k (CHR ''='')) mod 4 = 0"
    using lens by (simp add: lenb)
  have len1: "length body mod 4 \<noteq> Suc 0" using lens by (simp add: lenb)
  have nonempty: "0 < k \<Longrightarrow> body \<noteq> []" using lens by (auto simp: body_def)
  have lastb: "body \<noteq> [] \<Longrightarrow> last body \<noteq> CHR ''=''"
    using body_set b64chars_plain last_in_set by blast
  have filt: "filter (\<lambda>c. \<not> is_ascii_whitespace c) (btoa s) = btoa s"
    unfolding enc using body_set b64chars_plain
    by (auto simp: filter_id_conv is_ascii_whitespace_def)
  have strip: "strip_padding (btoa s) = body"
    unfolding enc using strip_padding_pad[OF len0' k_le lastb nonempty] by simp
  have idx: "those (map b64_index body) = Some xs"
    unfolding body_def using those_b64_index[OF xs_lt] .
  have bytes_back: "map char_of (sextets_to_bytes xs) = s"
    unfolding xs_def using sextets_roundtrip[OF bs_lt] by (simp add: bs_def comp_def)
  show ?thesis
    by (simp add: atob_def filt strip Let_def len1 idx bytes_back)
qed

lemma byte_code_unit: "(of_nat (of_char (char_of (unat b)) :: nat) :: 8 word) = b"
proof -
  have "unat b < 2 ^ LENGTH(8)" by (rule unsigned_less)
  then have "unat b mod 256 = unat b" by simp
  then show ?thesis by simp
qed

lemma bytes_code_units:
  "map (\<lambda>c. (of_nat (of_char c :: nat) :: 8 word)) (map (\<lambda>b. char_of (unat b)) bytes) = bytes"
  by (induction bytes) (simp_all only: list.map byte_code_unit)

text \<open>
  Claim C9. The audio helpers are mutually inverse on bytes: for every byte array \<open>b\<close>,
  \<open>decode\<close> of \<open>encode b\<close> returns normally, and returns \<open>b\<close>.
\<close>

theorem decode_encode_inverse: "decode (encode b) = Inr b"
  by (simp add: decode_def encode_def atob_btoa bytes_code_units del: map_map)

subsection \<open>The loops of the streaming client as folds over callbacks\<close>

lemma stream_loop_fold:
  "stream_loop onChunk str full st =
     ((case stream_error str of
         None \<Rightarrow> Inr (full @ concat (delivered_chunks str))
       | Some e \<Rightarrow> Inl e),
      foldl (\<lambda>acc c. onChunk c acc) st (delivered_chunks str))"
  by (induction str arbitrary: full st) (auto split: option.splits)

lemma parts_loop_fold:
  "parts_loop onChunk (Some onImage) ps st =
     foldl (run_callback onChunk onImage) st (concat (map part_callbacks ps))"
  by (induction ps arbitrary: st) (auto simp: part_callbacks_def Let_def split: option.splits)

subsection \<open>The last messages of the current session\<close>

lemma sessions_setSessions: "sessions (setSessions stringify f st) = f (sessions st)"
  by (simp add: setSessions_def persistSessions_def)

















subsection \<open>handleSendMessage, unfolded along its two paths\<close>














subsection \<open>The live handler, step by step\<close>


lemma accumulate_fields:
  "nextStartTime (accumulate_transcriptions msg st) = nextStartTime st"
  "audioSources (accumulate_transcriptions msg st) = audioSources st"
  "startedSources (accumulate_transcriptions msg st) = startedSources st"
  "stoppedSources (accumulate_transcriptions msg st) = stoppedSources st"
  "sessions (accumulate_transcriptions msg st) = sessions st"
  "localStorage (accumulate_transcriptions msg st) = localStorage st"
  by (simp_all add: accumulate_transcriptions_def Let_def split: option.splits)



lemma interrupt_step_fields:
  "sessions (interrupt_step msg st) = sessions st"
  "localStorage (interrupt_step msg st) = localStorage st"
  "transcription_input (interrupt_step msg st) = transcription_input st"
  "transcription_output (interrupt_step msg st) = transcription_output st"
  "startedSources (interrupt_step msg st) = startedSources st"
  by (simp_all add: interrupt_step_def split: option.splits)

lemma decodeAudioData_duration:
  "decodeAudioData bytes 24000 1 = Inr buffer \<Longrightarrow> 0 < duration buffer"
  by (auto simp: decodeAudioData_def Let_def split: if_splits)

text \<open>The audio step either starts nothing or starts one source at the cursor.\<close>

lemma schedule_audio_cases:
  assumes "schedule_audio currentTime audioData st = (err, st1)"
  shows "sessions st1 = sessions st \<and> localStorage st1 = localStorage st
         \<and> transcription_input st1 = transcription_input st
         \<and> transcription_output st1 = transcription_output st
         \<and> stoppedSources st1 = stoppedSources st
         \<and> ((err \<noteq> None \<and> startedSources st1 = startedSources st
               \<and> audioSources st1 = audioSources st
               \<and> nextStartTime st1 = max (nextStartTime st) currentTime)
              \<or> (err = None
                  \<and> (\<exists>d. 0 < d
                        \<and> startedSources st1 = startedSources st
                             @ [\<lparr>src_start = max (nextStartTime st) currentTime, src_duration = d\<rparr>]
                        \<and> audioSources st1 = audioSources st
                             @ [\<lparr>src_start = max (nextStartTime st) currentTime, src_duration = d\<rparr>]
                        \<and> nextStartTime st1 = max (nextStartTime st) currentTime + d)))"
proof (cases "decode audioData")
  case (Inl e)
  with assms show ?thesis by (auto simp: schedule_audio_def Let_def)
next
  case (Inr bytes)
  show ?thesis
  proof (cases "decodeAudioData bytes 24000 1")
    case (Inl e)
    with Inr assms show ?thesis by (auto simp: schedule_audio_def Let_def)
  next
    case r: (Inr buffer)
    from decodeAudioData_duration[OF r] Inr r assms show ?thesis
      by (auto simp: schedule_audio_def Let_def)
  qed
qed

text \<open>The state after the audio step of \<open>onmessage\<close>, as a function of its own.\<close>

lemma onmessage_unfold:
  "onmessage stringify cur currentTime u1 u2 n1 n2 n3 msg st =
     (let st1 = accumulate_transcriptions msg st
      in (case message_audioData msg of
            Inl e \<Rightarrow> (Some e, st1)
          | Inr None \<Rightarrow>
              (None, turnComplete_step stringify cur u1 u2 n1 n2 n3 msg (interrupt_step msg st1))
          | Inr (Some a) \<Rightarrow>
              if a = []
              then (None, turnComplete_step stringify cur u1 u2 n1 n2 n3 msg
                            (interrupt_step msg st1))
              else (case schedule_audio currentTime a st1 of
                      (Some e, st2) \<Rightarrow> (Some e, st2)
                    | (None, st2) \<Rightarrow>
                        (None, turnComplete_step stringify cur u1 u2 n1 n2 n3 msg
                                 (interrupt_step msg st2)))))"
  by (simp add: onmessage_def Let_def split: sum.splits option.splits prod.splits)







subsection \<open>Scheduling of the audio sources\<close>












subsection \<open>The chat input\<close>










subsection \<open>The message renderer\<close>

lemma ChatMessage_time_only:
  "toLocaleTimeString rt1 (timestamp (message props))
     = toLocaleTimeString rt2 (timestamp (message props))
   \<Longrightarrow> ChatMessage rt1 props = ChatMessage rt2 props"
  by (simp add: ChatMessage_def Let_def)

lemma toLocaleTimeString_locale:
  "timeZoneOffset rt1 = timeZoneOffset rt2 \<Longrightarrow> hour12 rt1 = hour12 rt2
     \<Longrightarrow> toLocaleTimeString rt1 ms = toLocaleTimeString rt2 ms"
  by (simp add: toLocaleTimeString_def)

text \<open>
  Claim C8, as stated, fails: the view shows the time of the message as
  \<open>toLocaleTimeString\<close> formats it, so the same props render differently in a runtime on
  UTC and in one an hour ahead.
\<close>

theorem render_depends_on_time_zone:
  "ChatMessage utc_runtime sample_props \<noteq> ChatMessage cet_runtime sample_props"
proof -
  have "toLocaleTimeString utc_runtime 1000 = ''00:00''"
    by code_simp
  moreover have "toLocaleTimeString cet_runtime 1000 = ''01:00''"
    by code_simp
  ultimately show ?thesis
    by (simp add: ChatMessage_def Let_def sample_props_def sample_greeting_def)
qed

text \<open>
  Claim C8, amended. The view is a function of the props and of the runtime's locale and
  time zone only: two runtimes with the same time zone offset and the same kind of clock
  face render the same props to the same view, whatever their clocks and their documents
  hold. The click handler \<open>downloadImage\<close> changes the runtime, but nothing a render reads.
\<close>

theorem render_function_of_props_and_locale:
  assumes "timeZoneOffset rt1 = timeZoneOffset rt2" and "hour12 rt1 = hour12 rt2"
  shows "ChatMessage rt1 props = ChatMessage rt2 props
     \<and> ChatMessage (rt1\<lparr>clock := t\<rparr>) props = ChatMessage rt1 props
     \<and> ChatMessage (downloadImage d mt rt1) props = ChatMessage rt1 props"
proof -
  have a: "ChatMessage rt1 props = ChatMessage rt2 props"
    by (rule ChatMessage_time_only) (rule toLocaleTimeString_locale[OF assms])
  have b: "ChatMessage (rt1\<lparr>clock := t\<rparr>) props = ChatMessage rt1 props"
    by (rule ChatMessage_time_only) (rule toLocaleTimeString_locale, simp_all)
  have c: "ChatMessage (downloadImage d mt rt1) props = ChatMessage rt1 props"
    by (rule ChatMessage_time_only)
       (rule toLocaleTimeString_locale, simp_all add: downloadImage_def)
  from a b c show ?thesis by (intro conjI)
qed

theorem render_function_of_props_and_locale_witness:
  "timeZoneOffset utc_runtime = timeZoneOffset (utc_runtime\<lparr>clock := 86400000\<rparr>)
   \<and> hour12 utc_runtime = hour12 (utc_runtime\<lparr>clock := 86400000\<rparr>)
   \<and> ChatMessage utc_runtime sample_props
       = ChatMessage (utc_runtime\<lparr>clock := 86400000\<rparr>) sample_props
   \<and> ChatMessage (downloadImage ''aGk='' ''image/png'' utc_runtime) sample_props
       = ChatMessage utc_runtime sample_props"
proof -
  have h1: "timeZoneOffset utc_runtime = timeZoneOffset (utc_runtime\<lparr>clock := 86400000\<rparr>)"
    by simp
  have h2: "hour12 utc_runtime = hour12 (utc_runtime\<lparr>clock := 86400000\<rparr>)" by simp
  note t = render_function_of_props_and_locale[OF h1 h2, of sample_props 0 "''aGk=''"
      "''image/png''"]
  from h1 h2 t[THEN conjunct1] t[THEN conjunct2, THEN conjunct2] show ?thesis
    by (intro conjI)
qed

subsection \<open>Persistence of the session list\<close>

lemma map_step_refl: "map_step stringify st st"
  by (simp add: map_step_def)

lemma map_step_trans:
  "map_step stringify a b \<Longrightarrow> map_step stringify b c \<Longrightarrow> map_step stringify a c"
  unfolding map_step_def persisted_def by auto

lemma map_step_same:
  "sessions st' = sessions st \<Longrightarrow> localStorage st' = localStorage st
     \<Longrightarrow> map_step stringify st st'"
  by (simp add: map_step_def stored_sessions_def)

lemma setSessions_persisted: "persisted stringify (setSessions stringify f st)"
  by (simp add: persisted_def setSessions_def persistSessions_def stored_sessions_def)

lemma setSessions_stored_empty:
  "f (sessions st) = [] \<Longrightarrow>
     stored_sessions (setSessions stringify f st) = stored_sessions st"
  by (simp add: setSessions_def persistSessions_def stored_sessions_def)

lemma map_step_setSessions:
  "map_step stringify st (setSessions stringify (map g) st)"
  unfolding map_step_def
  using setSessions_persisted[of stringify "map g" st]
    setSessions_stored_empty[of "map g" st stringify]
  by (auto simp: sessions_setSessions)

lemma map_step_then_same:
  assumes "map_step stringify st st1"
    and "sessions st2 = sessions st1" and "stored_sessions st2 = stored_sessions st1"
  shows "map_step stringify st st2"
  using assms unfolding map_step_def persisted_def by auto

lemma map_step_welcomeEffect: "map_step stringify st (welcomeEffect stringify tr st)"
proof (cases "currentSessionId st")
  case None
  then show ?thesis by (simp add: welcomeEffect_def map_step_refl)
next
  case (Some cur)
  show ?thesis
  proof (cases "cur = []")
    case True
    with Some show ?thesis by (simp add: welcomeEffect_def map_step_refl)
  next
    case False
    with Some show ?thesis
      unfolding welcomeEffect_def
      by (auto simp: Let_def stored_sessions_def intro!: map_step_then_same[OF map_step_setSessions])
  qed
qed

lemma map_step_runEffects: "map_step stringify st (runEffects stringify tr before st)"
  by (simp add: runEffects_def map_step_refl map_step_welcomeEffect)

lemma map_step_toggleKidMode: "map_step stringify st (toggleKidMode stringify tr st)"
  unfolding toggleKidMode_def by (rule map_step_setSessions)

lemma map_step_selectSession: "map_step stringify st (selectSession stringify tr ident st)"
  unfolding selectSession_def
  by (rule map_step_trans[OF _ map_step_runEffects]) (simp add: map_step_same)

lemma map_step_changeLanguage: "map_step stringify st (changeLanguage stringify tr lang st)"
  unfolding changeLanguage_def
  by (rule map_step_trans[OF _ map_step_runEffects]) (simp add: map_step_same)

lemma map_step_onChunk_cb:
  "map_step stringify (snd fs) (snd (onChunk_cb stringify cur mid c fs))"
  by (simp add: onChunk_cb_def Let_def map_step_setSessions)

lemma map_step_onImageGenerated_cb:
  "map_step stringify (snd fs) (snd (onImageGenerated_cb stringify cur mid d mt fs))"
  by (simp add: onImageGenerated_cb_def map_step_setSessions)

lemma map_step_callbacks:
  "map_step stringify (snd fs)
     (snd (foldl (run_callback (onChunk_cb stringify cur mid)
                    (onImageGenerated_cb stringify cur mid)) fs cbs))"
proof (induction cbs arbitrary: fs)
  case Nil
  then show ?case by (simp add: map_step_refl)
next
  case (Cons cb cbs)
  show ?case
    by (cases cb)
       (auto intro: map_step_trans[OF map_step_onChunk_cb Cons.IH]
          map_step_trans[OF map_step_onImageGenerated_cb Cons.IH])
qed

lemma map_step_after_chunks:
  "map_step stringify (snd fs) (snd (after_chunks stringify cur mid cs fs))"
  unfolding after_chunks_def
proof (induction cs arbitrary: fs)
  case Nil
  then show ?case by (simp add: map_step_refl)
next
  case (Cons c cs)
  show ?case by (auto intro: map_step_trans[OF map_step_onChunk_cb Cons.IH])
qed

lemma map_step_send_begin:
  "map_step stringify st (send_begin stringify tr cur u1 u2 n1 n2 n3 body atts st)"
  unfolding send_begin_def
  by (rule map_step_then_same[OF map_step_setSessions]) (simp_all add: stored_sessions_def)

lemma map_step_send_finish: "map_step stringify st (send_finish stringify cur mid st)"
  unfolding send_finish_def by (rule map_step_setSessions)

lemma map_step_isLoading: "map_step stringify st (st\<lparr>isLoading := b\<rparr>)"
  by (simp add: map_step_same)

lemma map_step_playResponseAudio: "map_step stringify st (playResponseAudio t st)"
  by (simp add: map_step_same playResponseAudio_def)

lemma map_step_generateStreamingResponse:
  "map_step stringify (snd s0)
     (snd (snd (snd (generateStreamingResponse sdk tr msgs lang kid
                       (onChunk_cb stringify cur mid)
                       (Some (onImageGenerated_cb stringify cur mid)) s0))))"
proof (cases "hasImages msgs")
  case True
  then show ?thesis
    by (auto simp: generateStreamingResponse_def Let_def parts_loop_fold map_step_refl
          map_step_callbacks split: sum.splits option.splits)
next
  case False
  then show ?thesis
    using map_step_after_chunks[of stringify s0 cur mid]
    by (simp add: generateStreamingResponse_def Let_def stream_loop_fold after_chunks_def)
qed

lemma map_step_handleSendMessage:
  "map_step stringify st
     (snd (handleSendMessage sdk stringify tr u1 u2 n1 n2 n3 body atts st))"
proof (cases "currentSessionId st")
  case None
  then show ?thesis by (simp add: handleSendMessage_def map_step_refl)
next
  case (Some cur)
  show ?thesis
  proof (cases "cur = []")
    case True
    with Some show ?thesis by (simp add: handleSendMessage_def map_step_refl)
  next
    case False
    let ?st1 = "send_begin stringify tr cur u1 u2 n1 n2 n3 body atts st"
    let ?g = "generateStreamingResponse sdk tr
                (currentMessages_of st cur (userMessage_of u1 body atts n1)) (language st)
                (isKidModeNow st) (onChunk_cb stringify cur u2)
                (Some (onImageGenerated_cb stringify cur u2)) ([], ?st1)"
    obtain call res fs where g: "?g = (call, res, fs)" by (cases ?g)
    have "map_step stringify (snd ([] :: string, ?st1)) (snd (snd (snd ?g)))"
      by (rule map_step_generateStreamingResponse)
    then have fs: "map_step stringify st (snd fs)"
      using map_step_trans[OF map_step_send_begin] by (simp add: g)
    show ?thesis
    proof (cases res)
      case (Inl e)
      have "map_step stringify st ((snd fs)\<lparr>isLoading := False\<rparr>)"
        by (rule map_step_trans[OF fs map_step_isLoading])
      with Some False g Inl show ?thesis by (simp add: handleSendMessage_def Let_def)
    next
      case (Inr v)
      let ?st2 = "send_finish stringify cur u2 (snd fs)"
      let ?st3 = "if isKidModeNow st then playResponseAudio (fst fs) ?st2 else ?st2"
      have "map_step stringify st ?st2"
        by (rule map_step_trans[OF fs map_step_send_finish])
      then have "map_step stringify st ?st3"
        using map_step_trans[OF _ map_step_playResponseAudio] by auto
      then have "map_step stringify st (?st3\<lparr>isLoading := False\<rparr>)"
        by (rule map_step_trans[OF _ map_step_isLoading])
      with Some False g Inr show ?thesis by (simp add: handleSendMessage_def Let_def)
    qed
  qed
qed

lemma turnComplete_step_storage:
  "map_step stringify st (turnComplete_step stringify cur u1 u2 n1 n2 n3 msg st)"
proof -
  have "map_step stringify st ((setSessions stringify (map g) st)
          \<lparr>transcription_input := [], transcription_output := []\<rparr>)" for g
    by (rule map_step_then_same[OF map_step_setSessions]) (simp_all add: stored_sessions_def)
  then show ?thesis
    by (simp add: turnComplete_step_def Let_def map_step_refl split: option.splits)
qed

lemma map_step_onmessage:
  "map_step stringify st (snd (onmessage stringify cur currentTime u1 u2 n1 n2 n3 msg st))"
proof -
  let ?acc = "accumulate_transcriptions msg st"
  have acc: "map_step stringify st ?acc"
    by (rule map_step_same) (simp_all add: accumulate_fields)
  have tail: "map_step stringify st
                (turnComplete_step stringify cur u1 u2 n1 n2 n3 msg (interrupt_step msg x))"
    if "sessions x = sessions st" "localStorage x = localStorage st" for x
  proof -
    have "map_step stringify st (interrupt_step msg x)"
      by (rule map_step_same) (simp_all add: interrupt_step_fields that)
    then show ?thesis by (rule map_step_trans[OF _ turnComplete_step_storage])
  qed
  show ?thesis
  proof (cases "message_audioData msg")
    case (Inl e)
    with acc show ?thesis by (simp add: onmessage_unfold)
  next
    case (Inr a)
    show ?thesis
    proof (cases a)
      case None
      with Inr tail[of ?acc] show ?thesis by (simp add: onmessage_unfold accumulate_fields)
    next
      case (Some audio)
      show ?thesis
      proof (cases "audio = []")
        case True
        with Inr Some tail[of ?acc] show ?thesis
          by (simp add: onmessage_unfold accumulate_fields)
      next
        case False
        obtain err st2 where s: "schedule_audio currentTime audio ?acc = (err, st2)"
          by (cases "schedule_audio currentTime audio ?acc")
        from schedule_audio_cases[OF s]
        have same: "sessions st2 = sessions st" "localStorage st2 = localStorage st"
          by (simp_all add: accumulate_fields)
        show ?thesis
        proof (cases err)
          case None
          with Inr Some False s tail[OF same] show ?thesis by (simp add: onmessage_unfold)
        next
          case (Some e)
          have "map_step stringify st st2" by (rule map_step_same[OF same])
          with Inr \<open>a = Some audio\<close> False s Some show ?thesis by (simp add: onmessage_unfold)
        qed
      qed
    qed
  qed
qed

text \<open>What every operation of the store does to persistence.\<close>

lemma map_step_persistence:
  assumes "map_step stringify st st'"
  shows "(persisted stringify st'
          \<or> (sessions st' = sessions st \<and> stored_sessions st' = stored_sessions st))
         \<and> (sessions st' = [] \<longrightarrow> stored_sessions st' = stored_sessions st)"
  using assms unfolding map_step_def by auto

lemma createNewSession_persistence:
  "persisted stringify (createNewSession stringify tr u1 u2 n1 n2 st)
   \<and> sessions (createNewSession stringify tr u1 u2 n1 n2 st) \<noteq> []"
proof -
  let ?new = "\<lparr>sess_id = u1, title = newConversation (tr (language st)),
               messages = [\<lparr>msg_id = u2, role = MODEL, content = welcome_msg (tr (language st)),
                            timestamp = n1, attachments = None, generatedImage = None,
                            isStreaming = None\<rparr>],
               updatedAt = n2, isKidMode = Some False\<rparr>"
  let ?st1 = "(setSessions stringify (\<lambda>prev. ?new # prev) st)\<lparr>currentSessionId := Some u1\<rparr>"
  have p1: "persisted stringify ?st1"
    using setSessions_persisted[of stringify "\<lambda>prev. ?new # prev" st]
    by (simp add: persisted_def stored_sessions_def)
  have n1: "sessions ?st1 \<noteq> []" by (simp add: sessions_setSessions)
  have m: "map_step stringify ?st1 (runEffects stringify tr st ?st1)"
    by (rule map_step_runEffects)
  have run: "createNewSession stringify tr u1 u2 n1 n2 st = runEffects stringify tr st ?st1"
    by (simp add: createNewSession_def Let_def)
  from m p1 n1 show ?thesis
    unfolding run map_step_def persisted_def by auto
qed

lemma deleteSession_persistence:
  "(persisted stringify (deleteSession stringify tr ident st)
    \<or> (sessions (deleteSession stringify tr ident st) = sessions st
        \<and> stored_sessions (deleteSession stringify tr ident st) = stored_sessions st))
   \<and> (sessions (deleteSession stringify tr ident st) = []
        \<longrightarrow> stored_sessions (deleteSession stringify tr ident st) = stored_sessions st)"
proof -
  let ?updated = "filter (\<lambda>s. sess_id s \<noteq> ident) (sessions st)"
  let ?st1 = "setSessions stringify (\<lambda>prev. ?updated) st"
  let ?st2 = "if currentSessionId st = Some ident
              then ?st1\<lparr>currentSessionId :=
                          (case ?updated of [] \<Rightarrow> None | s # rest \<Rightarrow> Some (sess_id s))\<rparr>
              else ?st1"
  have s2: "sessions ?st2 = ?updated" by (simp add: sessions_setSessions)
  have p2: "persisted stringify ?st2"
    using setSessions_persisted[of stringify "\<lambda>prev. ?updated" st]
    by (simp add: persisted_def stored_sessions_def)
  have e2: "?updated = [] \<Longrightarrow> stored_sessions ?st2 = stored_sessions st"
    using setSessions_stored_empty[of "\<lambda>prev. ?updated" st stringify]
    by (simp add: stored_sessions_def)
  have m: "map_step stringify ?st2 (runEffects stringify tr st ?st2)"
    by (rule map_step_runEffects)
  have run: "deleteSession stringify tr ident st = runEffects stringify tr st ?st2"
    by (simp add: deleteSession_def Let_def)
  have len: "length (sessions (runEffects stringify tr st ?st2)) = length ?updated"
    using m s2 by (simp add: map_step_def)
  have pers: "persisted stringify (runEffects stringify tr st ?st2)"
    using m p2 unfolding map_step_def persisted_def by auto
  have "stored_sessions (runEffects stringify tr st ?st2) = stored_sessions st"
    if "sessions (runEffects stringify tr st ?st2) = []"
  proof -
    from that len have u: "?updated = []" by simp
    with m s2 have "stored_sessions (runEffects stringify tr st ?st2) = stored_sessions ?st2"
      by (simp add: map_step_def)
    with e2[OF u] show ?thesis by simp
  qed
  with pers show ?thesis unfolding run by blast
qed

lemma apply_op_persistence:
  "(persisted stringify (apply_op stringify tr x st)
    \<or> (sessions (apply_op stringify tr x st) = sessions st
        \<and> stored_sessions (apply_op stringify tr x st) = stored_sessions st))
   \<and> (sessions (apply_op stringify tr x st) = []
        \<longrightarrow> stored_sessions (apply_op stringify tr x st) = stored_sessions st)"
proof (cases x)
  case (OpCreateNewSession u1 u2 n1 n2)
  then show ?thesis using createNewSession_persistence[of stringify tr u1 u2 n1 n2 st] by simp
next
  case (OpDeleteSession ident)
  then show ?thesis using deleteSession_persistence[of stringify tr ident st] by simp
next
  case OpToggleKidMode
  then show ?thesis using map_step_persistence[OF map_step_toggleKidMode] by simp
next
  case (OpSelectSession ident)
  then show ?thesis using map_step_persistence[OF map_step_selectSession] by simp
next
  case (OpChangeLanguage lang)
  then show ?thesis using map_step_persistence[OF map_step_changeLanguage] by simp
next
  case (OpSendMessage sdk u1 u2 n1 n2 n3 body atts)
  then show ?thesis using map_step_persistence[OF map_step_handleSendMessage] by simp
next
  case (OpLiveMessage cur currentTime u1 u2 n1 n2 n3 msg)
  then show ?thesis using map_step_persistence[OF map_step_onmessage] by simp
qed

lemma apply_op_persisted:
  "persisted stringify st \<Longrightarrow> persisted stringify (apply_op stringify tr x st)"
  using apply_op_persistence[of stringify tr x st] unfolding persisted_def by auto

lemma run_ops_persisted:
  "persisted stringify st \<Longrightarrow> persisted stringify (run_ops stringify tr ops st)"
  by (induction ops arbitrary: st) (simp_all add: apply_op_persisted)

lemma JSON_stringify_nonempty: "JSON_stringify (s # ss) \<noteq> JSON_stringify []"
proof -
  have "\<exists>rest. JSON_stringify (s # ss) = CHR ''['' # CHR ''{'' # rest"
    by (cases ss) (simp_all add: JSON_stringify_def json_array_def json_session_def json_object_def)
  moreover have "JSON_stringify [] = ''[]''"
    by (simp add: JSON_stringify_def json_array_def)
  ultimately show ?thesis by auto
qed

text \<open>
  Claim C2, as stated, fails: the effect that persists the sessions is guarded by
  \<open>sessions.length > 0\<close>. After the only session is deleted the list is empty and the stored
  value is still the serialization of the list that held the session.
\<close>

theorem deleting_last_session_not_persisted:
  "sessions (apply_op JSON_stringify sample_translations (OpDeleteSession ''s1'')
               (sample_state JSON_stringify)) = []
   \<and> stored_sessions (apply_op JSON_stringify sample_translations (OpDeleteSession ''s1'')
                        (sample_state JSON_stringify))
       = Some (JSON_stringify [sample_session])
   \<and> stored_sessions (apply_op JSON_stringify sample_translations (OpDeleteSession ''s1'')
                        (sample_state JSON_stringify))
       \<noteq> Some (JSON_stringify
                  (sessions (apply_op JSON_stringify sample_translations (OpDeleteSession ''s1'')
                               (sample_state JSON_stringify))))"
proof -
  let ?st' = "apply_op JSON_stringify sample_translations (OpDeleteSession ''s1'')
                (sample_state JSON_stringify)"
  have a: "sessions ?st' = []"
    by (simp add: deleteSession_def sample_state_def sample_session_def setSessions_def
          persistSessions_def runEffects_def welcomeEffect_def Let_def)
  have b: "stored_sessions ?st' = Some (JSON_stringify [sample_session])"
    by (simp add: deleteSession_def sample_state_def sample_session_def setSessions_def
          persistSessions_def runEffects_def welcomeEffect_def Let_def stored_sessions_def)
  from a b JSON_stringify_nonempty[of sample_session "[]"] show ?thesis by simp
qed

text \<open>
  Claim C2, amended. After any operation of the store, if the session list is not empty and
  the operation changed it (or the store was persisted before), the stored value under the
  sessions key is the serialization of the session list; if the list is empty afterwards,
  the operation has left the stored value as it was. So along any sequence of operations
  the store stays persisted: the list is empty or the stored value is its serialization.
\<close>

theorem sessions_persisted_unless_empty:
  assumes "st' = apply_op stringify tr x st"
  shows "(sessions st' \<noteq> [] \<and> (sessions st' \<noteq> sessions st \<or> persisted stringify st)
            \<longrightarrow> stored_sessions st' = Some (stringify (sessions st')))
       \<and> (sessions st' = [] \<longrightarrow> stored_sessions st' = stored_sessions st)
       \<and> (persisted stringify st \<longrightarrow> persisted stringify (run_ops stringify tr ops st))"
  using apply_op_persistence[of stringify tr x st] run_ops_persisted[of stringify st tr ops]
  unfolding assms persisted_def by auto

theorem sessions_persisted_unless_empty_witness:
  "sessions (apply_op JSON_stringify sample_translations
               (OpCreateNewSession ''s2'' ''m1'' 3000 3001) (sample_state JSON_stringify)) \<noteq> []
   \<and> sessions (apply_op JSON_stringify sample_translations
                  (OpCreateNewSession ''s2'' ''m1'' 3000 3001) (sample_state JSON_stringify))
       \<noteq> sessions (sample_state JSON_stringify)
   \<and> stored_sessions (apply_op JSON_stringify sample_translations
                         (OpCreateNewSession ''s2'' ''m1'' 3000 3001) (sample_state JSON_stringify))
       = Some (JSON_stringify
                 (sessions (apply_op JSON_stringify sample_translations
                              (OpCreateNewSession ''s2'' ''m1'' 3000 3001)
                              (sample_state JSON_stringify))))
   \<and> persisted JSON_stringify (sample_state JSON_stringify)
   \<and> persisted JSON_stringify
         (run_ops JSON_stringify sample_translations
            [OpCreateNewSession ''s2'' ''m1'' 3000 3001, OpDeleteSession ''s1'']
            (sample_state JSON_stringify))"
proof -
  let ?st = "sample_state JSON_stringify"
  let ?st' = "apply_op JSON_stringify sample_translations
                (OpCreateNewSession ''s2'' ''m1'' 3000 3001) ?st"
  have len: "length (sessions ?st') = 2"
    by (simp add: createNewSession_def sample_state_def setSessions_def persistSessions_def
          runEffects_def welcomeEffect_def Let_def)
  have h1: "sessions ?st' \<noteq> []" using len by auto
  have h2: "sessions ?st' \<noteq> sessions ?st"
    using len by (auto simp: sample_state_def)
  have h3: "persisted JSON_stringify ?st"
    by (simp add: persisted_def sample_state_def stored_sessions_def)
  note t = sessions_persisted_unless_empty[OF refl, of JSON_stringify sample_translations
      "OpCreateNewSession ''s2'' ''m1'' 3000 3001" ?st
      "[OpCreateNewSession ''s2'' ''m1'' 3000 3001, OpDeleteSession ''s1'']"]
  from t[THEN conjunct1] h1 h2
  have a: "stored_sessions ?st' = Some (JSON_stringify (sessions ?st'))" by blast
  from t[THEN conjunct2, THEN conjunct2] h3
  have b: "persisted JSON_stringify
         (run_ops JSON_stringify sample_translations
            [OpCreateNewSession ''s2'' ''m1'' 3000 3001, OpDeleteSession ''s1''] ?st)"
    by blast
  from h1 h2 a h3 b show ?thesis by (intro conjI)
qed

subsection \<open>Uniqueness of identifiers\<close>





























end
